theory Spec2Isabelle
  imports Complex_Main
begin

section \<open>Park\_it: the occupancy decision engine\<close>

text \<open>
  A shallow embedding of the two occupancy strategies of the repository:
  \<^item> \<^verbatim>\<open>server/opencv_service/yolo_detector.py\<close> (class \<^verbatim>\<open>YOLODetector\<close>) and the
    interactive tool \<^verbatim>\<open>Tested/Tested/test22.py\<close> (class \<^verbatim>\<open>ParkingDetector\<close>): the
    detection-overlap strategy;
  \<^item> \<^verbatim>\<open>server/opencv_service/parking_lot_tracker.py\<close> (class \<^verbatim>\<open>ParkingLotTracker\<close>):
    the geometric signal strategy.

  Numbers. Python's \<^verbatim>\<open>float\<close> is idealised as \<^typ>\<open>real\<close>: rounding, infinities and
  NaN are not modelled, so every statement below is about exact arithmetic on finite
  coordinates. Python's \<^verbatim>\<open>int\<close> is \<^typ>\<open>int\<close>.
\<close>

subsection \<open>Boxes and intersection over union\<close>

text \<open>
  A box is the four-element list \<^verbatim>\<open>[x_min, y_min, x_max, y_max]\<close>. Every box that reaches
  \<^verbatim>\<open>calculate_iou\<close> is built with exactly four entries (by \<^verbatim>\<open>polygon_to_bbox\<close> or from
  the detector's \<^verbatim>\<open>xyxy\<close>), so the unpacking
  \<^verbatim>\<open>x1_min, y1_min, x1_max, y1_max = box1\<close> is a pattern match on a 4-tuple.
\<close>

type_synonym box = "real \<times> real \<times> real \<times> real"

text \<open>
  \<^verbatim>\<open>calculate_iou\<close>, lines 113--143 of \<^verbatim>\<open>yolo_detector.py\<close>; the method of the same
  name in \<^verbatim>\<open>test22.py\<close> (lines 302--323) has the same body.
\<close>

fun calculate_iou :: "box \<Rightarrow> box \<Rightarrow> real" where
  "calculate_iou (x1_min, y1_min, x1_max, y1_max) (x2_min, y2_min, x2_max, y2_max) =
     (let inter_x_min = max x1_min x2_min;
          inter_y_min = max y1_min y2_min;
          inter_x_max = min x1_max x2_max;
          inter_y_max = min y1_max y2_max
      in if inter_x_max < inter_x_min \<or> inter_y_max < inter_y_min then 0
         else
           let inter_area = (inter_x_max - inter_x_min) * (inter_y_max - inter_y_min);
               box1_area = (x1_max - x1_min) * (y1_max - y1_min);
               box2_area = (x2_max - x2_min) * (y2_max - y2_min);
               union_area = box1_area + box2_area - inter_area
           in if union_area > 0 then inter_area / union_area else 0)"


subsection \<open>Errors and the external collaborators\<close>

text \<open>
  The exceptions the modelled code raises itself or receives from numpy and OpenCV:
  \<^verbatim>\<open>FileNotFoundError\<close> and \<^verbatim>\<open>ValueError\<close> from the image checks, \<^verbatim>\<open>ValueError\<close> from
  numpy's \<^verbatim>\<open>min\<close> on an empty array, \<^verbatim>\<open>IndexError\<close> from \<^verbatim>\<open>coord[0]\<close>/\<^verbatim>\<open>coord[1]\<close> on
  a sequence that is too short, and \<^verbatim>\<open>cv2.error\<close> from an OpenCV call.
\<close>

datatype error = FileNotFoundError | ValueError | IndexError | Cv2Error

text \<open>One box of \<^verbatim>\<open>results[0].boxes\<close>, as the detector returns it.\<close>

record raw_box =
  cls :: int
  xyxy :: box
  conf :: real

text \<open>
  Everything the code asks of the file system, of the detection model and of OpenCV.
  None of it is code of the repository, so it is a parameter of the model:
  \<^item> \<open>path_exists\<close> is \<^verbatim>\<open>os.path.exists\<close>;
  \<^item> \<open>imread\<close> is \<^verbatim>\<open>cv2.imread\<close>, which returns \<^verbatim>\<open>None\<close> for a file it cannot decode;
  \<^item> \<open>shape\<close> is \<^verbatim>\<open>img.shape[:2]\<close>, height first;
  \<^item> \<open>predict\<close> is \<^verbatim>\<open>model.predict(img, conf=..., iou=...)[0].boxes\<close>;
  \<^item> \<open>preprocess_image\<close> is the tracker's method of that name, a fixed chain of OpenCV
    filters (grey scale, blur, adaptive threshold, median blur, dilation);
  \<^item> \<open>boundingRect\<close> is \<^verbatim>\<open>cv2.boundingRect\<close> on the integer point array;
  \<^item> \<open>count_masked\<close> stands for lines 109--117 of \<^verbatim>\<open>parking_lot_tracker.py\<close>: crop the
    preprocessed frame to the rectangle, fill the shifted polygon into a mask, and
    \<^verbatim>\<open>cv2.countNonZero\<close> of the masked crop.
  The two OpenCV operations may raise, which the slot loop catches.
\<close>

record 'img env =
  path_exists :: "string \<Rightarrow> bool"
  imread :: "string \<Rightarrow> 'img option"
  shape :: "'img \<Rightarrow> int \<times> int"
  predict :: "real \<Rightarrow> real \<Rightarrow> 'img \<Rightarrow> raw_box list"
  preprocess_image :: "'img \<Rightarrow> 'img"
  boundingRect :: "(int \<times> int) list \<Rightarrow> error + (int \<times> int \<times> int \<times> int)"
  count_masked :: "'img \<Rightarrow> (int \<times> int) list \<Rightarrow> int \<times> int \<times> int \<times> int \<Rightarrow> error + int"

subsection \<open>Slots and their coordinates\<close>

text \<open>
  A coordinate entry is a dict (the keys \<^verbatim>\<open>'x'\<close> and \<^verbatim>\<open>'y'\<close> may each be missing), a
  list or tuple of numbers, or anything else.
\<close>

datatype coord =
    CoordDict "real option" "real option"
  | CoordList "real list"
  | CoordOther

text \<open>
  A slot is a dict; these are the keys the code reads, each possibly missing (\<open>None\<close>).
  \<^verbatim>\<open>slot.get('coordinates', [])\<close> makes a missing key the empty list.
\<close>

record slot =
  coordinates :: "coord list"
  slot_id :: "string option"
  slotId :: "string option"
  slot_number :: "int option"
  slotNumber :: "int option"
  image_width :: "real option"
  imageWidth :: "real option"
  image_height :: "real option"
  imageHeight :: "real option"

text \<open>Python's \<^verbatim>\<open>a or b\<close>: \<^verbatim>\<open>a\<close> when it is truthy, else \<^verbatim>\<open>b\<close>.\<close>

definition or_str :: "string option \<Rightarrow> string option \<Rightarrow> string option" where
  "or_str a b = (case a of Some s \<Rightarrow> (if s \<noteq> [] then a else b) | None \<Rightarrow> b)"

definition or_int :: "int option \<Rightarrow> int option \<Rightarrow> int option" where
  "or_int a b = (case a of Some n \<Rightarrow> (if n \<noteq> 0 then a else b) | None \<Rightarrow> b)"

definition or_dim :: "real option \<Rightarrow> real option \<Rightarrow> real \<Rightarrow> real" where
  "or_dim a b d =
     (case a of
        Some v \<Rightarrow> (if v \<noteq> 0 then v
                   else (case b of Some u \<Rightarrow> (if u \<noteq> 0 then u else d) | None \<Rightarrow> d))
      | None \<Rightarrow> (case b of Some u \<Rightarrow> (if u \<noteq> 0 then u else d) | None \<Rightarrow> d))"

text \<open>\<^verbatim>\<open>coord.get('x', 0)\<close>.\<close>

definition get_default :: "real option \<Rightarrow> real \<Rightarrow> real" where
  "get_default v d = (case v of Some x \<Rightarrow> x | None \<Rightarrow> d)"

text \<open>
  The coordinate loop of \<^verbatim>\<open>YOLODetector.detect_occupancy\<close> (lines 220--234): a dict
  entry reads its keys with default 0, a sequence entry reads positions 0 and 1 (and
  raises when it is too short), any other entry is skipped by \<^verbatim>\<open>continue\<close>.
\<close>

fun pixel_coords_loop ::
  "real \<Rightarrow> real \<Rightarrow> coord list \<Rightarrow> (real \<times> real) list \<Rightarrow> error + (real \<times> real) list" where
  "pixel_coords_loop s_width s_height [] pixel_coords = Inr pixel_coords"
| "pixel_coords_loop s_width s_height (CoordDict mx my # cs) pixel_coords =
     pixel_coords_loop s_width s_height cs
       (pixel_coords @ [(get_default mx 0 * s_width, get_default my 0 * s_height)])"
| "pixel_coords_loop s_width s_height (CoordList (x_norm # y_norm # _) # cs) pixel_coords =
     pixel_coords_loop s_width s_height cs
       (pixel_coords @ [(x_norm * s_width, y_norm * s_height)])"
| "pixel_coords_loop s_width s_height (CoordList _ # cs) pixel_coords = Inl IndexError"
| "pixel_coords_loop s_width s_height (CoordOther # cs) pixel_coords =
     pixel_coords_loop s_width s_height cs pixel_coords"

text \<open>Python's \<^verbatim>\<open>int(x)\<close> on a float truncates towards zero.\<close>

definition py_int :: "real \<Rightarrow> int" where
  "py_int r = (if 0 \<le> r then \<lfloor>r\<rfloor> else \<lceil>r\<rceil>)"

text \<open>
  The same loop in \<^verbatim>\<open>ParkingLotTracker.detect_occupancy\<close> (lines 83--98), which
  truncates each product to an integer pixel.
\<close>

fun tracker_pixel_coords_loop ::
  "real \<Rightarrow> real \<Rightarrow> coord list \<Rightarrow> (int \<times> int) list \<Rightarrow> error + (int \<times> int) list" where
  "tracker_pixel_coords_loop s_width s_height [] pixel_coords = Inr pixel_coords"
| "tracker_pixel_coords_loop s_width s_height (CoordDict mx my # cs) pixel_coords =
     tracker_pixel_coords_loop s_width s_height cs
       (pixel_coords @ [(py_int (get_default mx 0 * s_width), py_int (get_default my 0 * s_height))])"
| "tracker_pixel_coords_loop s_width s_height (CoordList (x_norm # y_norm # _) # cs) pixel_coords =
     tracker_pixel_coords_loop s_width s_height cs
       (pixel_coords @ [(py_int (x_norm * s_width), py_int (y_norm * s_height))])"
| "tracker_pixel_coords_loop s_width s_height (CoordList _ # cs) pixel_coords = Inl IndexError"
| "tracker_pixel_coords_loop s_width s_height (CoordOther # cs) pixel_coords =
     tracker_pixel_coords_loop s_width s_height cs pixel_coords"

subsection \<open>The detection-overlap strategy\<close>

record vehicle =
  bbox :: box
  confidence :: real
  vclass :: string

record yolo_detector =
  conf_threshold :: real
  iou_threshold :: real
  occupied_threshold :: real

text \<open>
  \<^verbatim>\<open>detect_vehicles\<close> (lines 55--96): the two image checks, then the boxes of class 2 (car).
\<close>

definition detect_vehicles :: "'img env \<Rightarrow> yolo_detector \<Rightarrow> string \<Rightarrow> error + vehicle list" where
  "detect_vehicles ext self image_path =
     (if \<not> path_exists ext image_path then Inl FileNotFoundError
      else case imread ext image_path of
        None \<Rightarrow> Inl ValueError
      | Some img \<Rightarrow>
          Inr (map (\<lambda>b. \<lparr>bbox = xyxy b, confidence = conf b, vclass = ''car''\<rparr>)
                 (filter (\<lambda>b. cls b = 2)
                    (predict ext (conf_threshold self) (iou_threshold self) img))))"

text \<open>
  \<^verbatim>\<open>polygon_to_bbox\<close> (lines 98--111): the column-wise minimum and maximum of the point
  array. On an empty array numpy's reduction raises \<^verbatim>\<open>ValueError\<close>.
\<close>

fun polygon_to_bbox :: "(real \<times> real) list \<Rightarrow> error + box" where
  "polygon_to_bbox [] = Inl ValueError"
| "polygon_to_bbox (p # ps) =
     Inr (fold min (map fst ps) (fst p), fold min (map snd ps) (snd p),
          fold max (map fst ps) (fst p), fold max (map snd ps) (snd p))"

text \<open>
  The loop of \<^verbatim>\<open>check_slot_occupancy\<close> (lines 165--169) on its two variables
  \<^verbatim>\<open>max_iou\<close> and \<^verbatim>\<open>matched_vehicle\<close>.
\<close>

fun match_loop :: "box \<Rightarrow> vehicle list \<Rightarrow> real \<times> vehicle option \<Rightarrow> real \<times> vehicle option" where
  "match_loop slot_bbox [] acc = acc"
| "match_loop slot_bbox (v # vs) (max_iou, matched_vehicle) =
     (let iou = calculate_iou slot_bbox (bbox v)
      in if iou > max_iou then match_loop slot_bbox vs (iou, Some v)
         else match_loop slot_bbox vs (max_iou, matched_vehicle))"

definition check_slot_occupancy ::
  "yolo_detector \<Rightarrow> (real \<times> real) list \<Rightarrow> vehicle list \<Rightarrow> error + (bool \<times> real \<times> vehicle option)" where
  "check_slot_occupancy self slot_polygon vehicle_boxes =
     (case polygon_to_bbox slot_polygon of
        Inl e \<Rightarrow> Inl e
      | Inr slot_bbox \<Rightarrow>
          (case match_loop slot_bbox vehicle_boxes (0, None) of
             (max_iou, matched_vehicle) \<Rightarrow>
               Inr (max_iou \<ge> occupied_threshold self, max_iou, matched_vehicle)))"

text \<open>
  \<^verbatim>\<open>ParkingDetector.check_slot_occupancy\<close> of \<^verbatim>\<open>test22.py\<close> (lines 325--334): the car
  boxes are bare boxes, only the maximum is kept, and the threshold is the module
  constant.
\<close>

definition OCCUPIED_THRESHOLD :: real where
  "OCCUPIED_THRESHOLD = 0.30"

fun max_iou_loop :: "box \<Rightarrow> box list \<Rightarrow> real \<Rightarrow> real" where
  "max_iou_loop slot_bbox [] max_iou = max_iou"
| "max_iou_loop slot_bbox (car_box # car_boxes) max_iou =
     max_iou_loop slot_bbox car_boxes (max max_iou (calculate_iou slot_bbox car_box))"

definition check_slot_occupancy_t22 :: "(real \<times> real) list \<Rightarrow> box list \<Rightarrow> error + bool" where
  "check_slot_occupancy_t22 slot_polygon car_boxes =
     (case polygon_to_bbox slot_polygon of
        Inl e \<Rightarrow> Inl e
      | Inr slot_bbox \<Rightarrow> Inr (max_iou_loop slot_bbox car_boxes 0 \<ge> OCCUPIED_THRESHOLD))"


text \<open>
  What the slot loop prints for one slot: the warning of line 216 (76 in the tracker),
  the status line of line 267 (137), or the error line of the \<^verbatim>\<open>except\<close> branch, which
  names the slot in \<^verbatim>\<open>yolo_detector.py\<close> (line 273) and does not in
  \<^verbatim>\<open>parking_lot_tracker.py\<close> (line 150). The banner lines before the loop are not modelled.
\<close>

datatype diagnostic =
    Warning_no_coordinates "int option"
  | Slot_status "int option" string
  | Error_processing_slot "int option" error
  | Slot_processing_error error

record vehicle_metadata =
  bounding_box :: box
  vm_confidence :: real
  vm_iou :: real

record yolo_result =
  res_slot_id :: "string option"
  res_slot_number :: "int option"
  status :: string
  res_confidence :: real
  occupancy_ratio :: real
  detection_method :: string
  vehicle_metadata :: "vehicle_metadata option"

text \<open>
  The body of the \<^verbatim>\<open>try\<close> block of \<^verbatim>\<open>YOLODetector.detect_occupancy\<close> (lines 206--270)
  for one slot: \<open>Inl e\<close> when it raises \<open>e\<close>, \<open>Inr None\<close> when it leaves by
  \<^verbatim>\<open>continue\<close>, \<open>Inr (Some r)\<close> when it appends the result \<open>r\<close>.
\<close>

definition detect_occupancy_slot ::
  "yolo_detector \<Rightarrow> vehicle list \<Rightarrow> int \<times> int \<Rightarrow> slot \<Rightarrow> error + yolo_result option" where
  "detect_occupancy_slot self vehicles dims slot =
     (case dims of (img_height, img_width) \<Rightarrow>
      let s_width = or_dim (image_width slot) (imageWidth slot) (real_of_int img_width);
          s_height = or_dim (image_height slot) (imageHeight slot) (real_of_int img_height)
      in if coordinates slot = [] then Inr None
         else
           (case pixel_coords_loop s_width s_height (coordinates slot) [] of
              Inl e \<Rightarrow> Inl e
            | Inr pixel_coords \<Rightarrow>
                (case check_slot_occupancy self pixel_coords vehicles of
                   Inl e \<Rightarrow> Inl e
                 | Inr (is_occupied, max_iou, matched_vehicle) \<Rightarrow>
                     Inr (Some
                       \<lparr>res_slot_id = or_str (slot_id slot) (slotId slot),
                        res_slot_number = or_int (slot_number slot) (slotNumber slot),
                        status = (if is_occupied then ''occupied'' else ''vacant''),
                        res_confidence = 1,
                        occupancy_ratio = max_iou,
                        detection_method = ''yolo'',
                        vehicle_metadata =
                          (case matched_vehicle of
                             Some v \<Rightarrow>
                               (if is_occupied
                                then Some \<lparr>bounding_box = bbox v,
                                           vm_confidence = confidence v,
                                           vm_iou = max_iou\<rparr>
                                else None)
                           | None \<Rightarrow> None)\<rparr>))))"

text \<open>The \<^verbatim>\<open>for slot in slots\<close> loop with its \<^verbatim>\<open>try\<close>/\<^verbatim>\<open>except\<close> (lines 204--274).\<close>

fun slots_loop ::
  "yolo_detector \<Rightarrow> vehicle list \<Rightarrow> int \<times> int \<Rightarrow> slot list \<Rightarrow>
   yolo_result list \<times> diagnostic list \<Rightarrow> yolo_result list \<times> diagnostic list" where
  "slots_loop self vehicles dims [] acc = acc"
| "slots_loop self vehicles dims (slot # slots) (results, printed) =
     (let slot_num = or_int (slot_number slot) (slotNumber slot)
      in case detect_occupancy_slot self vehicles dims slot of
           Inr None \<Rightarrow>
             slots_loop self vehicles dims slots
               (results, printed @ [Warning_no_coordinates slot_num])
         | Inr (Some result) \<Rightarrow>
             slots_loop self vehicles dims slots
               (results @ [result], printed @ [Slot_status slot_num (status result)])
         | Inl e \<Rightarrow>
             slots_loop self vehicles dims slots
               (results, printed @ [Error_processing_slot slot_num e]))"

text \<open>
  \<^verbatim>\<open>YOLODetector.detect_occupancy\<close> (lines 175--276). It returns the result list; the
  second component is what the slot loop printed.
\<close>

definition detect_occupancy ::
  "'img env \<Rightarrow> yolo_detector \<Rightarrow> string \<Rightarrow> slot list \<Rightarrow>
   error + (yolo_result list \<times> diagnostic list)" where
  "detect_occupancy ext self image_path slots =
     (case detect_vehicles ext self image_path of
        Inl e \<Rightarrow> Inl e
      | Inr vehicles \<Rightarrow>
          (case imread ext image_path of
             None \<Rightarrow> Inl ValueError
           | Some img \<Rightarrow> Inr (slots_loop self vehicles (shape ext img) slots ([], []))))"

subsection \<open>The geometric signal strategy\<close>

record parking_lot_tracker =
  threshold_val :: real

record tracker_result =
  trk_slot_id :: "string option"
  trk_slot_number :: "int option"
  trk_status :: string
  trk_occupancy_ratio :: real
  white_pixel_count :: int
  total_area :: int
  trk_confidence :: real

text \<open>
  Lines 117--147 of \<^verbatim>\<open>parking_lot_tracker.py\<close>: from the pixel count and the clipped
  rectangle's width and height to the result record.
\<close>

definition slot_verdict ::
  "parking_lot_tracker \<Rightarrow> string option \<Rightarrow> int option \<Rightarrow> int \<Rightarrow> int \<Rightarrow> int \<Rightarrow> tracker_result" where
  "slot_verdict self sid slot_num count w h =
     (let area = (if w * h = 0 then 1 else w * h);
          threshold_pixel = threshold_val self;
          is_occupied =
            (if threshold_pixel > 1 then real_of_int count \<ge> threshold_pixel
             else real_of_int count / real_of_int area > threshold_pixel)
      in \<lparr>trk_slot_id = sid,
          trk_slot_number = slot_num,
          trk_status = (if is_occupied then ''occupied'' else ''vacant''),
          trk_occupancy_ratio = real_of_int count / real_of_int area,
          white_pixel_count = count,
          total_area = area,
          trk_confidence = 1\<rparr>)"

text \<open>
  The body of the \<^verbatim>\<open>try\<close> block of \<^verbatim>\<open>ParkingLotTracker.detect_occupancy\<close> (lines 66--147)
  for one slot, with the clipping of the bounding rectangle to the frame (lines 106--107).
\<close>

definition tracker_slot ::
  "'img env \<Rightarrow> parking_lot_tracker \<Rightarrow> 'img \<Rightarrow> int \<times> int \<Rightarrow> slot \<Rightarrow> error + tracker_result option" where
  "tracker_slot ext self imgPro dims slot =
     (case dims of (img_height, img_width) \<Rightarrow>
      let s_width = or_dim (image_width slot) (imageWidth slot) (real_of_int img_width);
          s_height = or_dim (image_height slot) (imageHeight slot) (real_of_int img_height)
      in if coordinates slot = [] then Inr None
         else
           (case tracker_pixel_coords_loop s_width s_height (coordinates slot) [] of
              Inl e \<Rightarrow> Inl e
            | Inr pts \<Rightarrow>
                (case boundingRect ext pts of
                   Inl e \<Rightarrow> Inl e
                 | Inr (x, y, w0, h0) \<Rightarrow>
                     let h = (if y + h0 > fst (shape ext imgPro) then fst (shape ext imgPro) - y else h0);
                         w = (if x + w0 > snd (shape ext imgPro) then snd (shape ext imgPro) - x else w0)
                     in (case count_masked ext imgPro pts (x, y, w, h) of
                           Inl e \<Rightarrow> Inl e
                         | Inr count \<Rightarrow>
                             Inr (Some (slot_verdict self
                               (or_str (slot_id slot) (slotId slot))
                               (or_int (slot_number slot) (slotNumber slot))
                               count w h))))))"

fun tracker_slots_loop ::
  "'img env \<Rightarrow> parking_lot_tracker \<Rightarrow> 'img \<Rightarrow> int \<times> int \<Rightarrow> slot list \<Rightarrow>
   tracker_result list \<times> diagnostic list \<Rightarrow> tracker_result list \<times> diagnostic list" where
  "tracker_slots_loop ext self imgPro dims [] acc = acc"
| "tracker_slots_loop ext self imgPro dims (slot # slots) (results, printed) =
     (let slot_num = or_int (slot_number slot) (slotNumber slot)
      in case tracker_slot ext self imgPro dims slot of
           Inr None \<Rightarrow>
             tracker_slots_loop ext self imgPro dims slots
               (results, printed @ [Warning_no_coordinates slot_num])
         | Inr (Some result) \<Rightarrow>
             tracker_slots_loop ext self imgPro dims slots
               (results @ [result], printed @ [Slot_status slot_num (trk_status result)])
         | Inl e \<Rightarrow>
             tracker_slots_loop ext self imgPro dims slots
               (results, printed @ [Slot_processing_error e]))"

text \<open>
  \<^verbatim>\<open>ParkingLotTracker.detect_occupancy\<close> (lines 37--152). Writing the debug frame
  (lines 53--62) is wrapped in a \<^verbatim>\<open>try\<close> that ignores every failure and changes nothing
  the function returns, so it is left out.
\<close>

definition tracker_detect_occupancy ::
  "'img env \<Rightarrow> parking_lot_tracker \<Rightarrow> string \<Rightarrow> slot list \<Rightarrow>
   error + (tracker_result list \<times> diagnostic list)" where
  "tracker_detect_occupancy ext self image_path slots =
     (case imread ext image_path of
        None \<Rightarrow> Inl ValueError
      | Some img \<Rightarrow>
          Inr (tracker_slots_loop ext self (preprocess_image ext img) (shape ext img) slots ([], [])))"


subsection \<open>Example inputs\<close>

text \<open>
  The slot of the specification's scenarios: the square with corners \<open>(0,0)\<close>, \<open>(10,0)\<close>,
  \<open>(10,10)\<close>, \<open>(0,10)\<close>, stored as fractions of a 100 by 100 frame.
\<close>

definition scenario_slot :: slot where
  "scenario_slot =
     \<lparr>coordinates = [CoordList [0, 0], CoordList [0.1, 0], CoordList [0.1, 0.1], CoordList [0, 0.1]],
      slot_id = Some ''A1'', slotId = None,
      slot_number = Some 1, slotNumber = None,
      image_width = None, imageWidth = None,
      image_height = None, imageHeight = None\<rparr>"

definition detector_with :: "real \<Rightarrow> yolo_detector" where
  "detector_with t = \<lparr>conf_threshold = 0.35, iou_threshold = 0.45, occupied_threshold = t\<rparr>"

definition car_at :: "box \<Rightarrow> vehicle" where
  "car_at b = \<lparr>bbox = b, confidence = 0.9, vclass = ''car''\<rparr>"


text \<open>
  Two environments over a one-element image type. In the first no image can be decoded.
  In the second every path holds an image of 100 by 100 pixels and the detector finds
  nothing. Its bounding rectangle of a point array is the smallest upright rectangle
  of whole pixels that holds every point (OpenCV's convention: width and height count
  the pixels, so they are the coordinate spans plus 1), and fails on an empty array. Its
  frame is foreground exactly in the columns \<open>0 \<le> x < 50\<close> and its polygons fill their
  whole rectangle, so the count is the number of pixels of the rectangle in those columns.
\<close>

definition example_boundingRect :: "(int \<times> int) list \<Rightarrow> error + (int \<times> int \<times> int \<times> int)" where
  "example_boundingRect pts =
     (case pts of
        [] \<Rightarrow> Inl Cv2Error
      | p # ps \<Rightarrow>
          Inr (fold min (map fst ps) (fst p), fold min (map snd ps) (snd p),
               fold max (map fst ps) (fst p) - fold min (map fst ps) (fst p) + 1,
               fold max (map snd ps) (snd p) - fold min (map snd ps) (snd p) + 1))"

definition example_count :: "(int \<times> int) list \<Rightarrow> int \<times> int \<times> int \<times> int \<Rightarrow> error + int" where
  "example_count pts r =
     (case r of (x, y, w, h) \<Rightarrow> Inr (max 0 (min (x + w) 50 - max x 0) * max 0 h))"

definition unreadable_env :: "unit env" where
  "unreadable_env =
     \<lparr>path_exists = (\<lambda>p. True),
      imread = (\<lambda>p. None),
      shape = (\<lambda>i. (100, 100)),
      predict = (\<lambda>c u i. []),
      preprocess_image = (\<lambda>i. i),
      boundingRect = (\<lambda>pts. Inl Cv2Error),
      count_masked = (\<lambda>i pts r. Inl Cv2Error)\<rparr>"

definition example_env :: "unit env" where
  "example_env =
     \<lparr>path_exists = (\<lambda>p. True),
      imread = (\<lambda>p. Some ()),
      shape = (\<lambda>i. (100, 100)),
      predict = (\<lambda>c u i. []),
      preprocess_image = (\<lambda>i. i),
      boundingRect = example_boundingRect,
      count_masked = (\<lambda>i. example_count)\<rparr>"

definition tracker_with :: "real \<Rightarrow> parking_lot_tracker" where
  "tracker_with t = \<lparr>threshold_val = t\<rparr>"

text \<open>
  A slot with only two coordinate points, a slot with none, a slot whose second entry
  is a sequence of one number, and a slot whose entries are neither dicts nor sequences.
\<close>

definition two_point_slot :: slot where
  "two_point_slot =
     \<lparr>coordinates = [CoordList [0.1, 0.1], CoordList [0.5, 0.5]],
      slot_id = Some ''B2'', slotId = None,
      slot_number = Some 2, slotNumber = None,
      image_width = None, imageWidth = None,
      image_height = None, imageHeight = None\<rparr>"





section \<open>Properties of intersection over union\<close>

lemma rect_area_mono:
  fixes a b c d p q r s :: real
  assumes "a \<le> p" "p \<le> q" "q \<le> b" "c \<le> r" "r \<le> s" "s \<le> d"
  shows "(q - p) * (s - r) \<le> (b - a) * (d - c)"
  using assms by (intro mult_mono) auto

lemma ratio_unit:
  fixes i u :: real
  assumes "0 \<le> i" "i \<le> u"
  shows "0 \<le> (if u > 0 then i / u else 0) \<and> (if u > 0 then i / u else 0) \<le> 1"
  using assms by (simp add: divide_le_eq)

lemma calculate_iou_bounds: "0 \<le> calculate_iou a b \<and> calculate_iou a b \<le> 1"
proof -
  obtain x1 y1 X1 Y1 where a: "a = (x1, y1, X1, Y1)" by (cases a)
  obtain x2 y2 X2 Y2 where b: "b = (x2, y2, X2, Y2)" by (cases b)
  show ?thesis
  proof (cases "min X1 X2 < max x1 x2 \<or> min Y1 Y2 < max y1 y2")
    case True
    then show ?thesis by (simp add: a b Let_def)
  next
    case False
    then have ov: "max x1 x2 \<le> min X1 X2" "max y1 y2 \<le> min Y1 Y2" by auto
    define i where "i = (min X1 X2 - max x1 x2) * (min Y1 Y2 - max y1 y2)"
    define u where "u = (X1 - x1) * (Y1 - y1) + (X2 - x2) * (Y2 - y2) - i"
    have i0: "0 \<le> i" unfolding i_def using ov by simp
    have i1: "i \<le> (X1 - x1) * (Y1 - y1)"
      unfolding i_def using ov by (intro rect_area_mono) auto
    have i2: "i \<le> (X2 - x2) * (Y2 - y2)"
      unfolding i_def using ov by (intro rect_area_mono) auto
    have iu: "i \<le> u" unfolding u_def using i0 i1 i2 by linarith
    have eq: "calculate_iou a b = (if u > 0 then i / u else 0)"
      using False by (simp add: a b Let_def i_def u_def)
    show ?thesis unfolding eq using ratio_unit [OF i0 iu] .
  qed
qed

text \<open>
  Claim C4. The IoU computation is symmetric: for all boxes \<open>a\<close> and \<open>b\<close>,
  \<^verbatim>\<open>calculate_iou(a, b)\<close> equals \<^verbatim>\<open>calculate_iou(b, a)\<close>.
\<close>

theorem calculate_iou_symmetric: "calculate_iou a b = calculate_iou b a"
  by (cases a; cases b) (simp add: Let_def max.commute min.commute add.commute)

text \<open>
  Claim C5. For every pair of boxes the value returned by \<^verbatim>\<open>calculate_iou\<close> lies in
  the closed interval from 0 to 1. No well-formedness of the boxes is needed: a box with
  \<open>x_max < x_min\<close> or \<open>y_max < y_min\<close> never passes the non-overlap test.
\<close>

theorem calculate_iou_in_unit_interval:
  "calculate_iou a b \<in> {0 .. 1}"
  using calculate_iou_bounds [of a b] by simp

text \<open>
  Claim C6, as the code has it. \<^verbatim>\<open>calculate_iou\<close> returns 0 for every pair of boxes that
  do not overlap on at least one axis (boxes that only touch included). For two identical
  boxes it returns 1 when the box has positive width and positive height, and 0 otherwise:
  the union area of a box of zero area with itself is 0, and the code returns 0.0 when
  the union area is not positive.
\<close>

theorem calculate_iou_disjoint_identical:
  "(X1 \<le> x2 \<or> X2 \<le> x1 \<or> Y1 \<le> y2 \<or> Y2 \<le> y1
      \<longrightarrow> calculate_iou (x1, y1, X1, Y1) (x2, y2, X2, Y2) = 0)
   \<and> (x < X \<and> y < Y \<longrightarrow> calculate_iou (x, y, X, Y) (x, y, X, Y) = 1)
   \<and> (\<not> (x < X \<and> y < Y) \<longrightarrow> calculate_iou (x, y, X, Y) (x, y, X, Y) = 0)"
proof (intro conjI impI)
  assume "X1 \<le> x2 \<or> X2 \<le> x1 \<or> Y1 \<le> y2 \<or> Y2 \<le> y1"
  then show "calculate_iou (x1, y1, X1, Y1) (x2, y2, X2, Y2) = 0"
    by (auto simp: Let_def)
next
  assume "x < X \<and> y < Y"
  then show "calculate_iou (x, y, X, Y) (x, y, X, Y) = 1"
    by (simp add: Let_def)
next
  assume "\<not> (x < X \<and> y < Y)"
  then show "calculate_iou (x, y, X, Y) (x, y, X, Y) = 0"
    by (auto simp: Let_def not_less mult_le_0_iff)
qed

text \<open>
  Scenario B of the specification (boxes \<open>[0,0,10,10]\<close> and \<open>[20,20,30,30]\<close>), two
  identical proper boxes, and a box of zero width compared with itself.
\<close>

theorem calculate_iou_disjoint_identical_witness:
  "calculate_iou (0, 0, 10, 10) (20, 20, 30, 30) = 0
   \<and> calculate_iou (0, 0, 10, 10) (0, 0, 10, 10) = 1
   \<and> calculate_iou (3, 4, 3, 9) (3, 4, 3, 9) = 0"
  using calculate_iou_disjoint_identical [of 10 20 30 0 10 20 30 0 0 10 0 10]
    calculate_iou_disjoint_identical [of 10 20 30 0 10 20 30 0 3 3 4 9]
  by simp

text \<open>
  The claim as the specification states it, "1.0 for every pair of identical boxes",
  fails on a box of zero width.
\<close>

theorem calculate_iou_identical_counterexample:
  "calculate_iou (3, 4, 3, 9) (3, 4, 3, 9) \<noteq> 1"
  by simp



section \<open>The detection-overlap strategy\<close>

lemma match_loop_fst:
  "fst (match_loop sb vs (m, mv)) = fold max (map (\<lambda>v. calculate_iou sb (bbox v)) vs) m"
proof (induction vs arbitrary: m mv)
  case Nil
  then show ?case by simp
next
  case (Cons v vs)
  show ?case
  proof (cases "calculate_iou sb (bbox v) > m")
    case True
    then show ?thesis using Cons.IH [of "calculate_iou sb (bbox v)" "Some v"]
      by (simp add: Let_def max_def)
  next
    case False
    then show ?thesis using Cons.IH [of m mv]
      by (simp add: Let_def max_def)
  qed
qed

lemma max_iou_loop_fold:
  "max_iou_loop sb bs m = fold max (map (calculate_iou sb) bs) m"
  by (induction bs arbitrary: m) (simp_all add: max.commute)

lemma fold_max_Max:
  fixes m :: real
  shows "fold max xs m = Max (insert m (set xs))"
  using Max.set_eq_fold [of m xs] by simp

lemma match_loop_max:
  "fst (match_loop sb vs (0, None)) = Max (insert 0 ((\<lambda>v. calculate_iou sb (bbox v)) ` set vs))"
  by (simp add: match_loop_fst fold_max_Max)

lemma max_iou_loop_max:
  "max_iou_loop sb (map bbox vs) 0 = Max (insert 0 ((\<lambda>v. calculate_iou sb (bbox v)) ` set vs))"
  by (simp add: max_iou_loop_fold fold_max_Max image_image comp_def)

lemma Max_insert_zero_nonempty:
  assumes "vs \<noteq> []"
  shows "Max (insert 0 ((\<lambda>v. calculate_iou sb (bbox v)) ` set vs))
         = Max ((\<lambda>v. calculate_iou sb (bbox v)) ` set vs)"
proof -
  let ?f = "\<lambda>v. calculate_iou sb (bbox v)"
  have fin: "finite (?f ` set vs)" by simp
  have ne: "?f ` set vs \<noteq> {}" using assms by simp
  obtain v vs' where vs: "vs = v # vs'" using assms by (cases vs) simp_all
  have v: "v \<in> set vs" unfolding vs by simp
  have "0 \<le> ?f v" using calculate_iou_bounds [of sb "bbox v"] by simp
  also have "?f v \<le> Max (?f ` set vs)"
    using fin v by (intro Max_ge imageI)
  finally have pos: "0 \<le> Max (?f ` set vs)" .
  have "Max (insert 0 (?f ` set vs)) = max 0 (Max (?f ` set vs))"
    using fin ne by (rule Max_insert)
  also have "\<dots> = Max (?f ` set vs)" using pos by (simp only: max_absorb2)
  finally show ?thesis .
qed

lemma Max_zero_iff_all_zero:
  "Max (insert 0 ((\<lambda>v. calculate_iou sb (bbox v)) ` set vs)) = 0
   \<longleftrightarrow> (\<forall>v\<in>set vs. calculate_iou sb (bbox v) = 0)"
proof
  assume m: "Max (insert 0 ((\<lambda>v. calculate_iou sb (bbox v)) ` set vs)) = 0"
  show "\<forall>v\<in>set vs. calculate_iou sb (bbox v) = 0"
  proof
    fix v assume "v \<in> set vs"
    then have "calculate_iou sb (bbox v) \<le> Max (insert 0 ((\<lambda>v. calculate_iou sb (bbox v)) ` set vs))"
      by (intro Max_ge) auto
    with m calculate_iou_bounds [of sb "bbox v"] show "calculate_iou sb (bbox v) = 0"
      by simp
  qed
next
  assume z: "\<forall>v\<in>set vs. calculate_iou sb (bbox v) = 0"
  show "Max (insert 0 ((\<lambda>v. calculate_iou sb (bbox v)) ` set vs)) = 0"
  proof (rule Max_eqI)
    show "finite (insert 0 ((\<lambda>v. calculate_iou sb (bbox v)) ` set vs))" by simp
    show "0 \<in> insert 0 ((\<lambda>v. calculate_iou sb (bbox v)) ` set vs)" by simp
    fix y assume "y \<in> insert 0 ((\<lambda>v. calculate_iou sb (bbox v)) ` set vs)"
    with z show "y \<le> 0" by auto
  qed
qed

lemma match_loop_matched:
  assumes "match_loop sb vs (m, mv) = (m', Some v)"
    and "mv = None \<or> (\<exists>u. mv = Some u \<and> calculate_iou sb (bbox u) = m \<and> u \<in> S \<and> m0 < m)"
    and "set vs \<subseteq> S" and "m0 \<le> m"
  shows "v \<in> S \<and> calculate_iou sb (bbox v) = m' \<and> m0 < m'"
  using assms
proof (induction vs arbitrary: m mv)
  case Nil
  then show ?case by auto
next
  case (Cons w vs)
  have sub: "set vs \<subseteq> S" and wS: "w \<in> S" using Cons.prems(3) by simp_all
  show ?case
  proof (cases "calculate_iou sb (bbox w) > m")
    case True
    with Cons.prems(1) have run: "match_loop sb vs (calculate_iou sb (bbox w), Some w) = (m', Some v)"
      by (simp add: Let_def)
    have lt: "m0 < calculate_iou sb (bbox w)" using True Cons.prems(4) by linarith
    have inv: "Some w = None \<or> (\<exists>u. Some w = Some u
        \<and> calculate_iou sb (bbox u) = calculate_iou sb (bbox w) \<and> u \<in> S
        \<and> m0 < calculate_iou sb (bbox w))"
      using wS lt by simp
    have le: "m0 \<le> calculate_iou sb (bbox w)" using lt by simp
    show ?thesis by (rule Cons.IH [OF run inv sub le])
  next
    case False
    with Cons.prems(1) have run: "match_loop sb vs (m, mv) = (m', Some v)"
      by (simp add: Let_def)
    show ?thesis by (rule Cons.IH [OF run Cons.prems(2) sub Cons.prems(4)])
  qed
qed

lemma match_loop_all_zero:
  "\<forall>v\<in>set vs. calculate_iou sb (bbox v) = 0 \<Longrightarrow> match_loop sb vs (0, None) = (0, None)"
  by (induction vs) (simp_all add: Let_def)

lemma check_slot_occupancy_Inr:
  assumes "polygon_to_bbox slot_polygon = Inr slot_bbox"
    and "match_loop slot_bbox vehicles (0, None) = (max_iou, matched_vehicle)"
  shows "check_slot_occupancy self slot_polygon vehicles =
         Inr (occupied_threshold self \<le> max_iou, max_iou, matched_vehicle)"
  using assms by (simp add: check_slot_occupancy_def)

lemma detect_occupancy_slot_eq:
  assumes c: "coordinates slot \<noteq> []"
    and p: "pixel_coords_loop
           (or_dim (image_width slot) (imageWidth slot) (real_of_int img_width))
           (or_dim (image_height slot) (imageHeight slot) (real_of_int img_height))
           (coordinates slot) [] = Inr slot_polygon"
    and b: "polygon_to_bbox slot_polygon = Inr slot_bbox"
    and m: "match_loop slot_bbox vehicles (0, None) = (max_iou, matched_vehicle)"
  shows "detect_occupancy_slot self vehicles (img_height, img_width) slot =
         Inr (Some
           \<lparr>res_slot_id = or_str (slot_id slot) (slotId slot),
            res_slot_number = or_int (slot_number slot) (slotNumber slot),
            status = (if occupied_threshold self \<le> max_iou then ''occupied'' else ''vacant''),
            res_confidence = 1,
            occupancy_ratio = max_iou,
            detection_method = ''yolo'',
            vehicle_metadata =
              (case matched_vehicle of
                 Some v \<Rightarrow>
                   (if occupied_threshold self \<le> max_iou
                    then Some \<lparr>bounding_box = bbox v,
                               vm_confidence = confidence v,
                               vm_iou = max_iou\<rparr>
                    else None)
               | None \<Rightarrow> None)\<rparr>)"
proof -
  have chk: "check_slot_occupancy self slot_polygon vehicles =
         Inr (occupied_threshold self \<le> max_iou, max_iou, matched_vehicle)"
    by (rule check_slot_occupancy_Inr [OF b m])
  show ?thesis
    unfolding detect_occupancy_slot_def Let_def prod.case
    by (simp only: c p chk if_False sum.case prod.case)
qed

lemma detect_occupancy_slot_Some:
  assumes c: "coordinates slot \<noteq> []"
    and p: "pixel_coords_loop
           (or_dim (image_width slot) (imageWidth slot) (real_of_int img_width))
           (or_dim (image_height slot) (imageHeight slot) (real_of_int img_height))
           (coordinates slot) [] = Inr slot_polygon"
    and b: "polygon_to_bbox slot_polygon = Inr slot_bbox"
    and m: "match_loop slot_bbox vehicles (0, None) = (max_iou, matched_vehicle)"
  shows "\<exists>r. detect_occupancy_slot self vehicles (img_height, img_width) slot = Inr (Some r)
           \<and> occupancy_ratio r = max_iou
           \<and> status r = (if occupied_threshold self \<le> max_iou then ''occupied'' else ''vacant'')
           \<and> (matched_vehicle = None \<longrightarrow> vehicle_metadata r = None)"
  unfolding detect_occupancy_slot_eq [OF c p b m]
  by (intro exI conjI impI, rule refl) simp_all

lemma scenario_slot_pixels:
  "coordinates scenario_slot \<noteq> []"
  "pixel_coords_loop
     (or_dim (image_width scenario_slot) (imageWidth scenario_slot) (real_of_int 100))
     (or_dim (image_height scenario_slot) (imageHeight scenario_slot) (real_of_int 100))
     (coordinates scenario_slot) [] = Inr [(0, 0), (10, 0), (10, 10), (0, 10)]"
  "polygon_to_bbox [(0, 0), (10, 0), (10, 10), (0, 10)] = Inr (0, 0, 10, 10)"
  by (simp_all add: scenario_slot_def or_dim_def)


text \<open>
  Claim C3 (scenario C of the specification). For the slot with bounding box
  \<open>[0,0,10,10]\<close> and the vehicle box \<open>[5,5,15,15]\<close> the IoU is 25/175; with occupancy
  threshold 0.30 the slot is vacant, with 0.10 it is occupied.
\<close>

theorem scenario_C_iou_and_status:
  "calculate_iou (0, 0, 10, 10) (5, 5, 15, 15) = 25 / 175
   \<and> polygon_to_bbox [(0, 0), (10, 0), (10, 10), (0, 10)] = Inr (0, 0, 10, 10)
   \<and> check_slot_occupancy (detector_with 0.30) [(0, 0), (10, 0), (10, 10), (0, 10)]
         [car_at (5, 5, 15, 15)] = Inr (False, 25 / 175, Some (car_at (5, 5, 15, 15)))
   \<and> check_slot_occupancy (detector_with 0.10) [(0, 0), (10, 0), (10, 10), (0, 10)]
         [car_at (5, 5, 15, 15)] = Inr (True, 25 / 175, Some (car_at (5, 5, 15, 15)))
   \<and> map_sum id (map_option status)
         (detect_occupancy_slot (detector_with 0.30) [car_at (5, 5, 15, 15)] (100, 100) scenario_slot)
       = Inr (Some ''vacant'')
   \<and> map_sum id (map_option status)
         (detect_occupancy_slot (detector_with 0.10) [car_at (5, 5, 15, 15)] (100, 100) scenario_slot)
       = Inr (Some ''occupied'')"
proof -
  have iou: "calculate_iou (0, 0, 10, 10) (5, 5, 15, 15) = 25 / 175"
    by simp
  have bb: "polygon_to_bbox [(0, 0), (10, 0), (10, 10), (0, 10)] = Inr (0, 0, 10, 10)"
    by simp
  have loop: "match_loop (0, 0, 10, 10) [car_at (5, 5, 15, 15)] (0, None)
              = (25 / 175, Some (car_at (5, 5, 15, 15)))"
    by (simp add: car_at_def)
  have c30: "check_slot_occupancy (detector_with 0.30) [(0, 0), (10, 0), (10, 10), (0, 10)]
         [car_at (5, 5, 15, 15)] = Inr (False, 25 / 175, Some (car_at (5, 5, 15, 15)))"
    using check_slot_occupancy_Inr [OF bb loop, of "detector_with 0.30"]
    by (simp add: detector_with_def)
  have c10: "check_slot_occupancy (detector_with 0.10) [(0, 0), (10, 0), (10, 10), (0, 10)]
         [car_at (5, 5, 15, 15)] = Inr (True, 25 / 175, Some (car_at (5, 5, 15, 15)))"
    using check_slot_occupancy_Inr [OF bb loop, of "detector_with 0.10"]
    by (simp add: detector_with_def)
  have s30: "map_sum id (map_option status)
         (detect_occupancy_slot (detector_with 0.30) [car_at (5, 5, 15, 15)] (100, 100) scenario_slot)
       = Inr (Some ''vacant'')"
    unfolding detect_occupancy_slot_eq [OF scenario_slot_pixels loop]
    by (simp add: detector_with_def)
  have s10: "map_sum id (map_option status)
         (detect_occupancy_slot (detector_with 0.10) [car_at (5, 5, 15, 15)] (100, 100) scenario_slot)
       = Inr (Some ''occupied'')"
    unfolding detect_occupancy_slot_eq [OF scenario_slot_pixels loop]
    by (simp add: detector_with_def)
  show ?thesis using iou bb c30 c10 s30 s10 by (intro conjI)
qed

text \<open>
  Claim C1, as the code has it. For every slot that reaches the overlap test and every
  list of vehicle boxes, the reported status is \<open>occupied\<close> if and only if the maximum IoU
  between the slot's bounding box and the vehicle boxes (0 when there is no vehicle box,
  the value the loop starts from) is at least the configured occupancy threshold, and
  that maximum is the reported ratio. A slot whose bounding box overlaps no vehicle box
  is reported \<open>vacant\<close> whenever the threshold is positive, as the default 0.30 is.
  The tool of \<^verbatim>\<open>test22.py\<close> decides the same way with its constant threshold 0.30.
\<close>

theorem detection_status_iff_max_iou:
  assumes c: "coordinates slot \<noteq> []"
    and p: "pixel_coords_loop
           (or_dim (image_width slot) (imageWidth slot) (real_of_int img_width))
           (or_dim (image_height slot) (imageHeight slot) (real_of_int img_height))
           (coordinates slot) [] = Inr slot_polygon"
    and b: "polygon_to_bbox slot_polygon = Inr slot_bbox"
  shows "(\<exists>r. detect_occupancy_slot self vehicles (img_height, img_width) slot = Inr (Some r)
            \<and> occupancy_ratio r = Max (insert 0 ((\<lambda>v. calculate_iou slot_bbox (bbox v)) ` set vehicles))
            \<and> (status r = ''occupied'' \<longleftrightarrow>
                 occupied_threshold self \<le> Max (insert 0 ((\<lambda>v. calculate_iou slot_bbox (bbox v)) ` set vehicles)))
            \<and> (status r = ''vacant'' \<longleftrightarrow>
                 \<not> occupied_threshold self \<le> Max (insert 0 ((\<lambda>v. calculate_iou slot_bbox (bbox v)) ` set vehicles)))
            \<and> (0 < occupied_threshold self \<and> (\<forall>v\<in>set vehicles. calculate_iou slot_bbox (bbox v) = 0)
                 \<longrightarrow> status r = ''vacant''))
         \<and> (vehicles \<noteq> [] \<longrightarrow>
              Max (insert 0 ((\<lambda>v. calculate_iou slot_bbox (bbox v)) ` set vehicles))
              = Max ((\<lambda>v. calculate_iou slot_bbox (bbox v)) ` set vehicles))
         \<and> check_slot_occupancy_t22 slot_polygon (map bbox vehicles)
             = Inr (OCCUPIED_THRESHOLD \<le> Max (insert 0 ((\<lambda>v. calculate_iou slot_bbox (bbox v)) ` set vehicles)))
         \<and> ((\<forall>v\<in>set vehicles. calculate_iou slot_bbox (bbox v) = 0)
              \<longrightarrow> check_slot_occupancy_t22 slot_polygon (map bbox vehicles) = Inr False)"
proof -
  let ?M = "Max (insert 0 ((\<lambda>v. calculate_iou slot_bbox (bbox v)) ` set vehicles))"
  obtain max_iou matched_vehicle
    where m: "match_loop slot_bbox vehicles (0, None) = (max_iou, matched_vehicle)"
    by (cases "match_loop slot_bbox vehicles (0, None)")
  have mx: "max_iou = ?M"
    using match_loop_max [of slot_bbox vehicles] m by simp
  have zero: "(\<forall>v\<in>set vehicles. calculate_iou slot_bbox (bbox v) = 0) \<Longrightarrow> ?M = 0"
    using Max_zero_iff_all_zero [of slot_bbox vehicles] by simp
  from detect_occupancy_slot_Some [OF c p b m, of self]
  obtain r where r: "detect_occupancy_slot self vehicles (img_height, img_width) slot = Inr (Some r)"
    and ratio: "occupancy_ratio r = max_iou"
    and st: "status r = (if occupied_threshold self \<le> max_iou then ''occupied'' else ''vacant'')"
    by blast
  have part1: "\<exists>r. detect_occupancy_slot self vehicles (img_height, img_width) slot = Inr (Some r)
            \<and> occupancy_ratio r = ?M
            \<and> (status r = ''occupied'' \<longleftrightarrow> occupied_threshold self \<le> ?M)
            \<and> (status r = ''vacant'' \<longleftrightarrow> \<not> occupied_threshold self \<le> ?M)
            \<and> (0 < occupied_threshold self \<and> (\<forall>v\<in>set vehicles. calculate_iou slot_bbox (bbox v) = 0)
                 \<longrightarrow> status r = ''vacant'')"
  proof (intro exI [of _ r] conjI impI)
    show "detect_occupancy_slot self vehicles (img_height, img_width) slot = Inr (Some r)"
      by (rule r)
    show "occupancy_ratio r = ?M" using ratio mx by simp
    show "status r = ''occupied'' \<longleftrightarrow> occupied_threshold self \<le> ?M"
      unfolding st mx by simp
    show "status r = ''vacant'' \<longleftrightarrow> \<not> occupied_threshold self \<le> ?M"
      unfolding st mx by simp
    assume "0 < occupied_threshold self \<and> (\<forall>v\<in>set vehicles. calculate_iou slot_bbox (bbox v) = 0)"
    then have "?M = 0" and "0 < occupied_threshold self" using zero by simp_all
    then show "status r = ''vacant''" unfolding st mx by simp
  qed
  have part2: "vehicles \<noteq> [] \<longrightarrow> ?M = Max ((\<lambda>v. calculate_iou slot_bbox (bbox v)) ` set vehicles)"
    using Max_insert_zero_nonempty [of vehicles slot_bbox] by blast
  have part3: "check_slot_occupancy_t22 slot_polygon (map bbox vehicles) = Inr (OCCUPIED_THRESHOLD \<le> ?M)"
    using b max_iou_loop_max [of slot_bbox vehicles]
    by (simp add: check_slot_occupancy_t22_def)
  have part4: "(\<forall>v\<in>set vehicles. calculate_iou slot_bbox (bbox v) = 0)
              \<longrightarrow> check_slot_occupancy_t22 slot_polygon (map bbox vehicles) = Inr False"
  proof
    assume "\<forall>v\<in>set vehicles. calculate_iou slot_bbox (bbox v) = 0"
    then have "?M = 0" by (rule zero)
    then show "check_slot_occupancy_t22 slot_polygon (map bbox vehicles) = Inr False"
      unfolding part3 by (simp add: OCCUPIED_THRESHOLD_def)
  qed
  show ?thesis using part1 part2 part3 part4 by (intro conjI)
qed


text \<open>
  Scenario B of the specification at the default threshold: the vehicle box
  \<open>[20,20,30,30]\<close> does not overlap the slot, and the slot is reported vacant by both
  programs.
\<close>

theorem detection_status_iff_max_iou_witness:
  "map_sum id (map_option status)
     (detect_occupancy_slot (detector_with 0.30) [car_at (20, 20, 30, 30)] (100, 100) scenario_slot)
   = Inr (Some ''vacant'')
   \<and> check_slot_occupancy_t22 [(0, 0), (10, 0), (10, 10), (0, 10)] [(20, 20, 30, 30)] = Inr False"
proof -
  have z: "\<forall>v\<in>set [car_at (20, 20, 30, 30)]. calculate_iou (0, 0, 10, 10) (bbox v) = 0"
    by (simp add: car_at_def)
  have t: "0 < occupied_threshold (detector_with 0.30)"
    by (simp add: detector_with_def)
  have ne: "[car_at (20, 20, 30, 30)] \<noteq> []" by simp
  have bx: "map bbox [car_at (20, 20, 30, 30)] = [(20, 20, 30, 30)]"
    by (simp add: car_at_def)
  from detection_status_iff_max_iou [OF scenario_slot_pixels,
      of "detector_with 0.30" "[car_at (20, 20, 30, 30)]"] z t ne
  have "(\<exists>r. detect_occupancy_slot (detector_with 0.30) [car_at (20, 20, 30, 30)] (100, 100)
               scenario_slot = Inr (Some r) \<and> status r = ''vacant'')"
    and "check_slot_occupancy_t22 [(0, 0), (10, 0), (10, 10), (0, 10)]
           (map bbox [car_at (20, 20, 30, 30)]) = Inr False"
    by blast+
  then show ?thesis unfolding bx by auto
qed

text \<open>
  The claim as the specification states it, "a slot with no overlapping vehicle box is
  always vacant", fails for a detector configured with occupancy threshold 0: the only
  vehicle box \<open>[40,40,60,60]\<close> has IoU 0 with the slot, and the slot is reported occupied.
\<close>

theorem detection_no_overlap_counterexample:
  "calculate_iou (0, 0, 10, 10) (40, 40, 60, 60) = 0
   \<and> map_sum id (map_option status)
       (detect_occupancy_slot (detector_with 0) [car_at (40, 40, 60, 60)] (100, 100) scenario_slot)
     = Inr (Some ''occupied'')"
proof -
  have loop: "match_loop (0, 0, 10, 10) [car_at (40, 40, 60, 60)] (0, None) = (0, None)"
    by (simp add: car_at_def)
  have "map_sum id (map_option status)
       (detect_occupancy_slot (detector_with 0) [car_at (40, 40, 60, 60)] (100, 100) scenario_slot)
     = Inr (Some ''occupied'')"
    unfolding detect_occupancy_slot_eq [OF scenario_slot_pixels loop]
    by (simp add: detector_with_def)
  then show ?thesis by simp
qed

text \<open>
  Claim C10. In \<^verbatim>\<open>check_slot_occupancy\<close> a vehicle is recorded as the matched vehicle only
  when its IoU strictly exceeds the running maximum, which starts at 0: a matched vehicle
  is one of the given vehicles, and its IoU is the returned maximum and is positive.
  So for every slot whose maximum IoU over the vehicle boxes is 0 the matched vehicle is
  \<open>None\<close>, the result carries no vehicle metadata, and with occupancy threshold 0 the
  slot is reported occupied all the same.
\<close>

theorem unmatched_when_max_iou_zero:
  assumes b: "polygon_to_bbox slot_polygon = Inr slot_bbox"
  shows "(\<forall>occ m v. check_slot_occupancy self slot_polygon vehicles = Inr (occ, m, Some v)
            \<longrightarrow> v \<in> set vehicles \<and> 0 < m \<and> calculate_iou slot_bbox (bbox v) = m)
    \<and> (Max (insert 0 ((\<lambda>v. calculate_iou slot_bbox (bbox v)) ` set vehicles)) = 0
        \<longrightarrow> check_slot_occupancy self slot_polygon vehicles
              = Inr (occupied_threshold self \<le> 0, 0, None))
    \<and> (Max (insert 0 ((\<lambda>v. calculate_iou slot_bbox (bbox v)) ` set vehicles)) = 0
        \<and> coordinates slot \<noteq> []
        \<and> pixel_coords_loop
             (or_dim (image_width slot) (imageWidth slot) (real_of_int img_width))
             (or_dim (image_height slot) (imageHeight slot) (real_of_int img_height))
             (coordinates slot) [] = Inr slot_polygon
        \<longrightarrow> (\<exists>r. detect_occupancy_slot self vehicles (img_height, img_width) slot = Inr (Some r)
               \<and> vehicle_metadata r = None
               \<and> occupancy_ratio r = 0
               \<and> (occupied_threshold self = 0 \<longrightarrow> status r = ''occupied'')))"
proof -
  let ?M = "Max (insert 0 ((\<lambda>v. calculate_iou slot_bbox (bbox v)) ` set vehicles))"
  have zero: "?M = 0 \<Longrightarrow> match_loop slot_bbox vehicles (0, None) = (0, None)"
    using Max_zero_iff_all_zero [of slot_bbox vehicles] match_loop_all_zero [of vehicles slot_bbox]
    by simp
  have part1: "\<forall>occ m v. check_slot_occupancy self slot_polygon vehicles = Inr (occ, m, Some v)
            \<longrightarrow> v \<in> set vehicles \<and> 0 < m \<and> calculate_iou slot_bbox (bbox v) = m"
  proof (intro allI impI)
    fix occ m v
    assume chk: "check_slot_occupancy self slot_polygon vehicles = Inr (occ, m, Some v)"
    obtain max_iou matched_vehicle
      where ml: "match_loop slot_bbox vehicles (0, None) = (max_iou, matched_vehicle)"
      by (cases "match_loop slot_bbox vehicles (0, None)")
    from chk check_slot_occupancy_Inr [OF b ml, of self]
    have "max_iou = m" and "matched_vehicle = Some v" by simp_all
    with ml have run: "match_loop slot_bbox vehicles (0, None) = (m, Some v)" by simp
    have inv: "(None :: vehicle option) = None \<or> (\<exists>u. (None :: vehicle option) = Some u
        \<and> calculate_iou slot_bbox (bbox u) = 0 \<and> u \<in> set vehicles \<and> (0::real) < 0)"
      by simp
    from match_loop_matched [OF run inv subset_refl order_refl]
    show "v \<in> set vehicles \<and> 0 < m \<and> calculate_iou slot_bbox (bbox v) = m"
      by simp
  qed
  have part2: "?M = 0 \<longrightarrow> check_slot_occupancy self slot_polygon vehicles
              = Inr (occupied_threshold self \<le> 0, 0, None)"
  proof
    assume "?M = 0"
    then have ml: "match_loop slot_bbox vehicles (0, None) = (0, None)" by (rule zero)
    show "check_slot_occupancy self slot_polygon vehicles = Inr (occupied_threshold self \<le> 0, 0, None)"
      by (rule check_slot_occupancy_Inr [OF b ml])
  qed
  have part3: "?M = 0
        \<and> coordinates slot \<noteq> []
        \<and> pixel_coords_loop
             (or_dim (image_width slot) (imageWidth slot) (real_of_int img_width))
             (or_dim (image_height slot) (imageHeight slot) (real_of_int img_height))
             (coordinates slot) [] = Inr slot_polygon
        \<longrightarrow> (\<exists>r. detect_occupancy_slot self vehicles (img_height, img_width) slot = Inr (Some r)
               \<and> vehicle_metadata r = None
               \<and> occupancy_ratio r = 0
               \<and> (occupied_threshold self = 0 \<longrightarrow> status r = ''occupied''))"
  proof
    assume h: "?M = 0
        \<and> coordinates slot \<noteq> []
        \<and> pixel_coords_loop
             (or_dim (image_width slot) (imageWidth slot) (real_of_int img_width))
             (or_dim (image_height slot) (imageHeight slot) (real_of_int img_height))
             (coordinates slot) [] = Inr slot_polygon"
    then have ml: "match_loop slot_bbox vehicles (0, None) = (0, None)"
      using zero by blast
    from h have c: "coordinates slot \<noteq> []"
      and p: "pixel_coords_loop
             (or_dim (image_width slot) (imageWidth slot) (real_of_int img_width))
             (or_dim (image_height slot) (imageHeight slot) (real_of_int img_height))
             (coordinates slot) [] = Inr slot_polygon"
      by blast+
    from detect_occupancy_slot_Some [OF c p b ml, of self]
    obtain r where r: "detect_occupancy_slot self vehicles (img_height, img_width) slot = Inr (Some r)"
      and ratio: "occupancy_ratio r = 0"
      and st: "status r = (if occupied_threshold self \<le> 0 then ''occupied'' else ''vacant'')"
      and vm: "vehicle_metadata r = None"
      by blast
    show "\<exists>r. detect_occupancy_slot self vehicles (img_height, img_width) slot = Inr (Some r)
               \<and> vehicle_metadata r = None
               \<and> occupancy_ratio r = 0
               \<and> (occupied_threshold self = 0 \<longrightarrow> status r = ''occupied'')"
      using r ratio st vm by (intro exI [of _ r]) simp
  qed
  show ?thesis using part1 part2 part3 by (intro conjI)
qed

text \<open>
  A detector with threshold 0, the scenario slot and one vehicle far away: the slot is
  occupied, the ratio is 0 and there is no matched vehicle and no vehicle metadata.
\<close>

theorem unmatched_when_max_iou_zero_witness:
  "check_slot_occupancy (detector_with 0) [(0, 0), (10, 0), (10, 10), (0, 10)]
     [car_at (20, 20, 30, 30)] = Inr (True, 0, None)
   \<and> map_sum id (map_option (\<lambda>r. (status r, occupancy_ratio r, vehicle_metadata r)))
       (detect_occupancy_slot (detector_with 0) [car_at (20, 20, 30, 30)] (100, 100) scenario_slot)
     = Inr (Some (''occupied'', 0, None))"
proof -
  have mz: "Max (insert 0 ((\<lambda>v. calculate_iou (0, 0, 10, 10) (bbox v)) ` set [car_at (20, 20, 30, 30)])) = 0"
    by (simp add: car_at_def)
  have t: "occupied_threshold (detector_with 0) = 0"
    by (simp add: detector_with_def)
  note inst = unmatched_when_max_iou_zero [OF scenario_slot_pixels(3),
      of "detector_with 0" "[car_at (20, 20, 30, 30)]"]
  have "check_slot_occupancy (detector_with 0) [(0, 0), (10, 0), (10, 10), (0, 10)]
     [car_at (20, 20, 30, 30)] = Inr (occupied_threshold (detector_with 0) \<le> 0, 0, None)"
    by (rule inst [THEN conjunct2, THEN conjunct1, THEN mp, OF mz])
  then have a: "check_slot_occupancy (detector_with 0) [(0, 0), (10, 0), (10, 10), (0, 10)]
     [car_at (20, 20, 30, 30)] = Inr (True, 0, None)"
    unfolding t by simp
  have "\<exists>r. detect_occupancy_slot (detector_with 0) [car_at (20, 20, 30, 30)] (100, 100)
        scenario_slot = Inr (Some r)
      \<and> vehicle_metadata r = None \<and> occupancy_ratio r = 0
      \<and> (occupied_threshold (detector_with 0) = 0 \<longrightarrow> status r = ''occupied'')"
    by (rule inst [THEN conjunct2, THEN conjunct2, THEN mp,
          OF conjI [OF mz conjI [OF scenario_slot_pixels(1) scenario_slot_pixels(2)]]])
  then obtain r where r: "detect_occupancy_slot (detector_with 0) [car_at (20, 20, 30, 30)] (100, 100)
        scenario_slot = Inr (Some r)"
    and f: "vehicle_metadata r = None" "occupancy_ratio r = 0"
      "occupied_threshold (detector_with 0) = 0 \<longrightarrow> status r = ''occupied''"
    by blast
  from f(3) t have st: "status r = ''occupied''" by (rule mp)
  have "map_sum id (map_option (\<lambda>r. (status r, occupancy_ratio r, vehicle_metadata r)))
       (detect_occupancy_slot (detector_with 0) [car_at (20, 20, 30, 30)] (100, 100) scenario_slot)
     = Inr (Some (''occupied'', 0, None))"
    unfolding r by (simp add: st f(1,2))
  with a show ?thesis by (rule conjI)
qed



section \<open>Unreadable frames and missing coordinate keys\<close>

text \<open>
  Claim C8. When the image at the given path cannot be loaded (\<^verbatim>\<open>cv2.imread\<close> returns
  \<^verbatim>\<open>None\<close>), \<^verbatim>\<open>detect_occupancy\<close> raises to the caller in both strategies and returns no
  result list at all: \<^verbatim>\<open>ValueError\<close> in the tracker, and in the detector \<^verbatim>\<open>ValueError\<close>
  or, when the path does not exist, \<^verbatim>\<open>FileNotFoundError\<close>.
\<close>

theorem unreadable_image_raises:
  assumes "imread ext image_path = None"
  shows "detect_occupancy ext self image_path slots
           = Inl (if path_exists ext image_path then ValueError else FileNotFoundError)
         \<and> tracker_detect_occupancy ext trk image_path slots = Inl ValueError"
  using assms
  by (simp add: detect_occupancy_def detect_vehicles_def tracker_detect_occupancy_def)

theorem unreadable_image_raises_witness:
  "detect_occupancy unreadable_env (detector_with 0.30) ''lot.jpg'' [scenario_slot] = Inl ValueError
   \<and> tracker_detect_occupancy unreadable_env (tracker_with 900) ''lot.jpg'' [scenario_slot]
       = Inl ValueError"
proof -
  have h: "imread unreadable_env ''lot.jpg'' = None"
    by (simp add: unreadable_env_def)
  have e: "path_exists unreadable_env ''lot.jpg''"
    by (simp add: unreadable_env_def)
  show ?thesis
    using unreadable_image_raises [OF h, of "detector_with 0.30" "[scenario_slot]" "tracker_with 900"] e
    by simp
qed

lemma pixel_coords_loop_dicts:
  "pixel_coords_loop sw sh (map (\<lambda>(mx, my). CoordDict mx my) ds) acc
   = Inr (acc @ map (\<lambda>(mx, my). (get_default mx 0 * sw, get_default my 0 * sh)) ds)"
  by (induction ds arbitrary: acc) (simp_all add: case_prod_beta)

lemma tracker_pixel_coords_loop_dicts:
  "tracker_pixel_coords_loop sw sh (map (\<lambda>(mx, my). CoordDict mx my) ds) acc
   = Inr (acc @ map (\<lambda>(mx, my). (py_int (get_default mx 0 * sw), py_int (get_default my 0 * sh))) ds)"
  by (induction ds arbitrary: acc) (simp_all add: case_prod_beta)

text \<open>
  Claim C9. A coordinate entry given as a dict with a missing \<^verbatim>\<open>'x'\<close> or \<^verbatim>\<open>'y'\<close> key is not
  skipped: in both strategies the loop appends a pixel point for it, with 0 for the
  missing component. A coordinate list made of dict entries only, whatever keys they
  have, yields exactly one pixel point per entry.
\<close>

theorem dict_missing_key_defaults_to_zero:
  "pixel_coords_loop sw sh (CoordDict None my # cs) acc
     = pixel_coords_loop sw sh cs (acc @ [(0, get_default my 0 * sh)])
   \<and> pixel_coords_loop sw sh (CoordDict mx None # cs) acc
     = pixel_coords_loop sw sh cs (acc @ [(get_default mx 0 * sw, 0)])
   \<and> tracker_pixel_coords_loop sw sh (CoordDict None my # cs) iacc
     = tracker_pixel_coords_loop sw sh cs (iacc @ [(0, py_int (get_default my 0 * sh))])
   \<and> tracker_pixel_coords_loop sw sh (CoordDict mx None # cs) iacc
     = tracker_pixel_coords_loop sw sh cs (iacc @ [(py_int (get_default mx 0 * sw), 0)])
   \<and> pixel_coords_loop sw sh (map (\<lambda>(mx, my). CoordDict mx my) ds) []
     = Inr (map (\<lambda>(mx, my). (get_default mx 0 * sw, get_default my 0 * sh)) ds)
   \<and> tracker_pixel_coords_loop sw sh (map (\<lambda>(mx, my). CoordDict mx my) ds) []
     = Inr (map (\<lambda>(mx, my). (py_int (get_default mx 0 * sw), py_int (get_default my 0 * sh))) ds)
   \<and> pixel_coords_loop 100 100 [CoordDict None (Some 0.5), CoordDict (Some 0.2) None, CoordDict None None] []
     = Inr [(0, 50), (20, 0), (0, 0)]
   \<and> tracker_pixel_coords_loop 100 100 [CoordDict None (Some 0.5), CoordDict (Some 0.2) None, CoordDict None None] []
     = Inr [(0, 50), (20, 0), (0, 0)]"
proof -
  have z: "get_default None 0 = 0" "py_int 0 = 0"
    by (simp_all add: get_default_def py_int_def)
  have a: "pixel_coords_loop sw sh (CoordDict None my # cs) acc
     = pixel_coords_loop sw sh cs (acc @ [(0, get_default my 0 * sh)])"
    by (simp add: z)
  have b: "pixel_coords_loop sw sh (CoordDict mx None # cs) acc
     = pixel_coords_loop sw sh cs (acc @ [(get_default mx 0 * sw, 0)])"
    by (simp add: z)
  have c: "tracker_pixel_coords_loop sw sh (CoordDict None my # cs) iacc
     = tracker_pixel_coords_loop sw sh cs (iacc @ [(0, py_int (get_default my 0 * sh))])"
    by (simp add: z)
  have d: "tracker_pixel_coords_loop sw sh (CoordDict mx None # cs) iacc
     = tracker_pixel_coords_loop sw sh cs (iacc @ [(py_int (get_default mx 0 * sw), 0)])"
    by (simp add: z)
  have e: "pixel_coords_loop sw sh (map (\<lambda>(mx, my). CoordDict mx my) ds) []
     = Inr (map (\<lambda>(mx, my). (get_default mx 0 * sw, get_default my 0 * sh)) ds)"
    using pixel_coords_loop_dicts [of sw sh ds "[]"] by simp
  have f: "tracker_pixel_coords_loop sw sh (map (\<lambda>(mx, my). CoordDict mx my) ds) []
     = Inr (map (\<lambda>(mx, my). (py_int (get_default mx 0 * sw), py_int (get_default my 0 * sh))) ds)"
    using tracker_pixel_coords_loop_dicts [of sw sh ds "[]"] by simp
  have g: "pixel_coords_loop 100 100 [CoordDict None (Some 0.5), CoordDict (Some 0.2) None, CoordDict None None] []
     = Inr [(0, 50), (20, 0), (0, 0)]"
    by (simp add: get_default_def)
  have h: "tracker_pixel_coords_loop 100 100 [CoordDict None (Some 0.5), CoordDict (Some 0.2) None, CoordDict None None] []
     = Inr [(0, 50), (20, 0), (0, 0)]"
    by (simp add: get_default_def py_int_def)
  show ?thesis using a b c d e f g h by (intro conjI)
qed

section \<open>The geometric signal strategy\<close>

lemma slot_verdict_fields:
  "white_pixel_count (slot_verdict self sid slot_num count w h) = count"
  "total_area (slot_verdict self sid slot_num count w h) = (if w * h = 0 then 1 else w * h)"
  "trk_occupancy_ratio (slot_verdict self sid slot_num count w h)
     = real_of_int count / real_of_int (if w * h = 0 then 1 else w * h)"
  "trk_status (slot_verdict self sid slot_num count w h)
     = (if (if threshold_val self > 1 then real_of_int count \<ge> threshold_val self
            else real_of_int count / real_of_int (if w * h = 0 then 1 else w * h) > threshold_val self)
        then ''occupied'' else ''vacant'')"
  by (simp_all add: slot_verdict_def Let_def)

lemma tracker_slot_Some:
  assumes "tracker_slot ext self imgPro (img_height, img_width) slot = Inr (Some r)"
  shows "\<exists>pts x y w0 h0 w h count.
           coordinates slot \<noteq> []
         \<and> tracker_pixel_coords_loop
              (or_dim (image_width slot) (imageWidth slot) (real_of_int img_width))
              (or_dim (image_height slot) (imageHeight slot) (real_of_int img_height))
              (coordinates slot) [] = Inr pts
         \<and> boundingRect ext pts = Inr (x, y, w0, h0)
         \<and> h = (if y + h0 > fst (shape ext imgPro) then fst (shape ext imgPro) - y else h0)
         \<and> w = (if x + w0 > snd (shape ext imgPro) then snd (shape ext imgPro) - x else w0)
         \<and> count_masked ext imgPro pts (x, y, w, h) = Inr count
         \<and> r = slot_verdict self (or_str (slot_id slot) (slotId slot))
                  (or_int (slot_number slot) (slotNumber slot)) count w h"
proof -
  let ?sw = "or_dim (image_width slot) (imageWidth slot) (real_of_int img_width)"
  let ?sh = "or_dim (image_height slot) (imageHeight slot) (real_of_int img_height)"
  from assms have ne: "coordinates slot \<noteq> []"
    by (auto simp: tracker_slot_def Let_def)
  from assms ne obtain pts where pts: "tracker_pixel_coords_loop ?sw ?sh (coordinates slot) [] = Inr pts"
    by (cases "tracker_pixel_coords_loop ?sw ?sh (coordinates slot) []")
       (simp_all add: tracker_slot_def Let_def)
  from assms ne pts obtain x y w0 h0 where br: "boundingRect ext pts = Inr (x, y, w0, h0)"
    by (cases "boundingRect ext pts") (auto simp: tracker_slot_def Let_def)
  define h where "h = (if y + h0 > fst (shape ext imgPro) then fst (shape ext imgPro) - y else h0)"
  define w where "w = (if x + w0 > snd (shape ext imgPro) then snd (shape ext imgPro) - x else w0)"
  from assms ne pts br obtain count where cm: "count_masked ext imgPro pts (x, y, w, h) = Inr count"
    by (cases "count_masked ext imgPro pts (x, y, w, h)")
       (simp_all add: tracker_slot_def Let_def h_def w_def)
  from assms ne pts br cm
  have "r = slot_verdict self (or_str (slot_id slot) (slotId slot))
                  (or_int (slot_number slot) (slotNumber slot)) count w h"
    by (simp add: tracker_slot_def Let_def h_def w_def)
  with ne pts br cm h_def w_def show ?thesis by blast
qed

lemma tracker_slot_eq:
  assumes ne: "coordinates slot \<noteq> []"
    and pts: "tracker_pixel_coords_loop
              (or_dim (image_width slot) (imageWidth slot) (real_of_int img_width))
              (or_dim (image_height slot) (imageHeight slot) (real_of_int img_height))
              (coordinates slot) [] = Inr pts"
    and br: "boundingRect ext pts = Inr (x, y, w0, h0)"
    and cm: "count_masked ext imgPro pts
               (x, y,
                (if x + w0 > snd (shape ext imgPro) then snd (shape ext imgPro) - x else w0),
                (if y + h0 > fst (shape ext imgPro) then fst (shape ext imgPro) - y else h0))
             = Inr count"
  shows "tracker_slot ext self imgPro (img_height, img_width) slot =
         Inr (Some (slot_verdict self (or_str (slot_id slot) (slotId slot))
                      (or_int (slot_number slot) (slotNumber slot)) count
                      (if x + w0 > snd (shape ext imgPro) then snd (shape ext imgPro) - x else w0)
                      (if y + h0 > fst (shape ext imgPro) then fst (shape ext imgPro) - y else h0)))"
  unfolding tracker_slot_def Let_def prod.case
  by (simp only: ne pts br cm if_False sum.case prod.case)

text \<open>
  Claim C2. The geometric strategy returns a result for a slot exactly when the slot
  has coordinates, its coordinate loop yields the pixel points \<open>pts\<close>, OpenCV gives the
  bounding rectangle of \<open>pts\<close> and the count of foreground pixels inside the polygon
  \<open>pts\<close> over that rectangle clipped to the frame. With \<open>count\<close> that number and \<open>area\<close>
  the clipped rectangle's width times height, replaced by 1 when it is 0: if the
  configured threshold is greater than 1 the slot is occupied exactly when
  \<open>count \<ge> threshold\<close>; otherwise it is occupied exactly when \<open>count / area > threshold\<close>.
  The reported ratio is \<open>count / area\<close> in both cases.
\<close>

theorem tracker_decision_rule:
  "(tracker_slot ext self imgPro (img_height, img_width) slot = Inr (Some r) \<longrightarrow>
      (\<exists>pts x y w0 h0 w h.
            coordinates slot \<noteq> []
          \<and> tracker_pixel_coords_loop
               (or_dim (image_width slot) (imageWidth slot) (real_of_int img_width))
               (or_dim (image_height slot) (imageHeight slot) (real_of_int img_height))
               (coordinates slot) [] = Inr pts
          \<and> boundingRect ext pts = Inr (x, y, w0, h0)
          \<and> h = (if y + h0 > fst (shape ext imgPro) then fst (shape ext imgPro) - y else h0)
          \<and> w = (if x + w0 > snd (shape ext imgPro) then snd (shape ext imgPro) - x else w0)
          \<and> count_masked ext imgPro pts (x, y, w, h) = Inr (white_pixel_count r)
          \<and> total_area r = (if w * h = 0 then 1 else w * h))
       \<and> (threshold_val self > 1 \<longrightarrow>
            (trk_status r = ''occupied'' \<longleftrightarrow> real_of_int (white_pixel_count r) \<ge> threshold_val self))
       \<and> (\<not> threshold_val self > 1 \<longrightarrow>
            (trk_status r = ''occupied'' \<longleftrightarrow>
               real_of_int (white_pixel_count r) / real_of_int (total_area r) > threshold_val self))
       \<and> (trk_status r = ''vacant'' \<longleftrightarrow> trk_status r \<noteq> ''occupied'')
       \<and> trk_occupancy_ratio r = real_of_int (white_pixel_count r) / real_of_int (total_area r))
   \<and> (coordinates slot \<noteq> []
       \<and> tracker_pixel_coords_loop
            (or_dim (image_width slot) (imageWidth slot) (real_of_int img_width))
            (or_dim (image_height slot) (imageHeight slot) (real_of_int img_height))
            (coordinates slot) [] = Inr pts'
       \<and> boundingRect ext pts' = Inr (x', y', w0', h0')
       \<and> count_masked ext imgPro pts'
            (x', y',
             (if x' + w0' > snd (shape ext imgPro) then snd (shape ext imgPro) - x' else w0'),
             (if y' + h0' > fst (shape ext imgPro) then fst (shape ext imgPro) - y' else h0'))
          = Inr count'
       \<longrightarrow> (\<exists>r'. tracker_slot ext self imgPro (img_height, img_width) slot = Inr (Some r')
                \<and> white_pixel_count r' = count'
                \<and> total_area r' =
                    (if (if x' + w0' > snd (shape ext imgPro) then snd (shape ext imgPro) - x' else w0')
                        * (if y' + h0' > fst (shape ext imgPro) then fst (shape ext imgPro) - y' else h0') = 0
                     then 1
                     else (if x' + w0' > snd (shape ext imgPro) then snd (shape ext imgPro) - x' else w0')
                        * (if y' + h0' > fst (shape ext imgPro) then fst (shape ext imgPro) - y' else h0'))))"
proof (rule conjI)
  show "tracker_slot ext self imgPro (img_height, img_width) slot = Inr (Some r) \<longrightarrow>
      (\<exists>pts x y w0 h0 w h.
            coordinates slot \<noteq> []
          \<and> tracker_pixel_coords_loop
               (or_dim (image_width slot) (imageWidth slot) (real_of_int img_width))
               (or_dim (image_height slot) (imageHeight slot) (real_of_int img_height))
               (coordinates slot) [] = Inr pts
          \<and> boundingRect ext pts = Inr (x, y, w0, h0)
          \<and> h = (if y + h0 > fst (shape ext imgPro) then fst (shape ext imgPro) - y else h0)
          \<and> w = (if x + w0 > snd (shape ext imgPro) then snd (shape ext imgPro) - x else w0)
          \<and> count_masked ext imgPro pts (x, y, w, h) = Inr (white_pixel_count r)
          \<and> total_area r = (if w * h = 0 then 1 else w * h))
       \<and> (threshold_val self > 1 \<longrightarrow>
            (trk_status r = ''occupied'' \<longleftrightarrow> real_of_int (white_pixel_count r) \<ge> threshold_val self))
       \<and> (\<not> threshold_val self > 1 \<longrightarrow>
            (trk_status r = ''occupied'' \<longleftrightarrow>
               real_of_int (white_pixel_count r) / real_of_int (total_area r) > threshold_val self))
       \<and> (trk_status r = ''vacant'' \<longleftrightarrow> trk_status r \<noteq> ''occupied'')
       \<and> trk_occupancy_ratio r = real_of_int (white_pixel_count r) / real_of_int (total_area r)"
  proof
    assume res: "tracker_slot ext self imgPro (img_height, img_width) slot = Inr (Some r)"
    from tracker_slot_Some [OF res]
    obtain pts x y w0 h0 w h count where
      ne: "coordinates slot \<noteq> []"
      and lp: "tracker_pixel_coords_loop
               (or_dim (image_width slot) (imageWidth slot) (real_of_int img_width))
               (or_dim (image_height slot) (imageHeight slot) (real_of_int img_height))
               (coordinates slot) [] = Inr pts"
      and br: "boundingRect ext pts = Inr (x, y, w0, h0)"
      and h: "h = (if y + h0 > fst (shape ext imgPro) then fst (shape ext imgPro) - y else h0)"
      and w: "w = (if x + w0 > snd (shape ext imgPro) then snd (shape ext imgPro) - x else w0)"
      and cm: "count_masked ext imgPro pts (x, y, w, h) = Inr count"
      and r: "r = slot_verdict self (or_str (slot_id slot) (slotId slot))
                    (or_int (slot_number slot) (slotNumber slot)) count w h"
      by blast
    have cnt: "white_pixel_count r = count"
      and area: "total_area r = (if w * h = 0 then 1 else w * h)"
      and ratio: "trk_occupancy_ratio r = real_of_int count / real_of_int (if w * h = 0 then 1 else w * h)"
      and st: "trk_status r
       = (if (if threshold_val self > 1 then real_of_int count \<ge> threshold_val self
              else real_of_int count / real_of_int (if w * h = 0 then 1 else w * h) > threshold_val self)
          then ''occupied'' else ''vacant'')"
      unfolding r by (rule slot_verdict_fields)+
    have part1: "\<exists>pts x y w0 h0 w h.
            coordinates slot \<noteq> []
          \<and> tracker_pixel_coords_loop
               (or_dim (image_width slot) (imageWidth slot) (real_of_int img_width))
               (or_dim (image_height slot) (imageHeight slot) (real_of_int img_height))
               (coordinates slot) [] = Inr pts
          \<and> boundingRect ext pts = Inr (x, y, w0, h0)
          \<and> h = (if y + h0 > fst (shape ext imgPro) then fst (shape ext imgPro) - y else h0)
          \<and> w = (if x + w0 > snd (shape ext imgPro) then snd (shape ext imgPro) - x else w0)
          \<and> count_masked ext imgPro pts (x, y, w, h) = Inr (white_pixel_count r)
          \<and> total_area r = (if w * h = 0 then 1 else w * h)"
      using ne lp br h w cm area unfolding cnt by blast
    have part2: "threshold_val self > 1 \<longrightarrow>
            (trk_status r = ''occupied'' \<longleftrightarrow> real_of_int (white_pixel_count r) \<ge> threshold_val self)"
      unfolding st cnt by simp
    have part3: "\<not> threshold_val self > 1 \<longrightarrow>
            (trk_status r = ''occupied'' \<longleftrightarrow>
               real_of_int (white_pixel_count r) / real_of_int (total_area r) > threshold_val self)"
      unfolding st cnt area by simp
    have part4: "trk_status r = ''vacant'' \<longleftrightarrow> trk_status r \<noteq> ''occupied''"
      unfolding st by simp
    have part5: "trk_occupancy_ratio r = real_of_int (white_pixel_count r) / real_of_int (total_area r)"
      unfolding ratio cnt area ..
    show "(\<exists>pts x y w0 h0 w h.
            coordinates slot \<noteq> []
          \<and> tracker_pixel_coords_loop
               (or_dim (image_width slot) (imageWidth slot) (real_of_int img_width))
               (or_dim (image_height slot) (imageHeight slot) (real_of_int img_height))
               (coordinates slot) [] = Inr pts
          \<and> boundingRect ext pts = Inr (x, y, w0, h0)
          \<and> h = (if y + h0 > fst (shape ext imgPro) then fst (shape ext imgPro) - y else h0)
          \<and> w = (if x + w0 > snd (shape ext imgPro) then snd (shape ext imgPro) - x else w0)
          \<and> count_masked ext imgPro pts (x, y, w, h) = Inr (white_pixel_count r)
          \<and> total_area r = (if w * h = 0 then 1 else w * h))
       \<and> (threshold_val self > 1 \<longrightarrow>
            (trk_status r = ''occupied'' \<longleftrightarrow> real_of_int (white_pixel_count r) \<ge> threshold_val self))
       \<and> (\<not> threshold_val self > 1 \<longrightarrow>
            (trk_status r = ''occupied'' \<longleftrightarrow>
               real_of_int (white_pixel_count r) / real_of_int (total_area r) > threshold_val self))
       \<and> (trk_status r = ''vacant'' \<longleftrightarrow> trk_status r \<noteq> ''occupied'')
       \<and> trk_occupancy_ratio r = real_of_int (white_pixel_count r) / real_of_int (total_area r)"
      using part1 part2 part3 part4 part5 by (intro conjI)
  qed
next
  let ?w = "(if x' + w0' > snd (shape ext imgPro) then snd (shape ext imgPro) - x' else w0')"
  let ?h = "(if y' + h0' > fst (shape ext imgPro) then fst (shape ext imgPro) - y' else h0')"
  show "coordinates slot \<noteq> []
       \<and> tracker_pixel_coords_loop
            (or_dim (image_width slot) (imageWidth slot) (real_of_int img_width))
            (or_dim (image_height slot) (imageHeight slot) (real_of_int img_height))
            (coordinates slot) [] = Inr pts'
       \<and> boundingRect ext pts' = Inr (x', y', w0', h0')
       \<and> count_masked ext imgPro pts' (x', y', ?w, ?h) = Inr count'
       \<longrightarrow> (\<exists>r'. tracker_slot ext self imgPro (img_height, img_width) slot = Inr (Some r')
                \<and> white_pixel_count r' = count'
                \<and> total_area r' = (if ?w * ?h = 0 then 1 else ?w * ?h))"
  proof
    assume a: "coordinates slot \<noteq> []
       \<and> tracker_pixel_coords_loop
            (or_dim (image_width slot) (imageWidth slot) (real_of_int img_width))
            (or_dim (image_height slot) (imageHeight slot) (real_of_int img_height))
            (coordinates slot) [] = Inr pts'
       \<and> boundingRect ext pts' = Inr (x', y', w0', h0')
       \<and> count_masked ext imgPro pts' (x', y', ?w, ?h) = Inr count'"
    then have ne: "coordinates slot \<noteq> []"
      and lp: "tracker_pixel_coords_loop
            (or_dim (image_width slot) (imageWidth slot) (real_of_int img_width))
            (or_dim (image_height slot) (imageHeight slot) (real_of_int img_height))
            (coordinates slot) [] = Inr pts'"
      and br: "boundingRect ext pts' = Inr (x', y', w0', h0')"
      and cm: "count_masked ext imgPro pts' (x', y', ?w, ?h) = Inr count'"
      by blast+
    let ?r = "slot_verdict self (or_str (slot_id slot) (slotId slot))
                      (or_int (slot_number slot) (slotNumber slot)) count' ?w ?h"
    have e: "tracker_slot ext self imgPro (img_height, img_width) slot = Inr (Some ?r)"
      by (rule tracker_slot_eq [OF ne lp br cm])
    have c: "white_pixel_count ?r = count'" by (rule slot_verdict_fields(1))
    have t: "total_area ?r = (if ?w * ?h = 0 then 1 else ?w * ?h)" by (rule slot_verdict_fields(2))
    from e c t
    show "\<exists>r'. tracker_slot ext self imgPro (img_height, img_width) slot = Inr (Some r')
                \<and> white_pixel_count r' = count'
                \<and> total_area r' = (if ?w * ?h = 0 then 1 else ?w * ?h)"
      by (intro exI [of _ ?r] conjI)
  qed
qed


text \<open>
  On the example frame the scenario slot has the rectangle 11 by 11 at the origin, all
  121 pixels foreground; with the default threshold 900 the count rule applies and the
  slot is vacant. The two-point slot has the rectangle 41 by 41 at \<open>(10, 10)\<close>, of which
  the 40 columns left of \<open>x = 50\<close> are foreground, 1640 of 1681 pixels; with threshold 0.5
  the ratio rule applies and the slot is occupied.
\<close>

theorem tracker_decision_rule_witness:
  "map_sum id (map_option (\<lambda>r. (trk_status r, trk_occupancy_ratio r, white_pixel_count r, total_area r)))
     (tracker_slot example_env (tracker_with 900) () (100, 100) scenario_slot)
   = Inr (Some (''vacant'', 1, 121, 121))
   \<and> map_sum id (map_option (\<lambda>r. (trk_status r, trk_occupancy_ratio r, white_pixel_count r, total_area r)))
     (tracker_slot example_env (tracker_with 0.5) () (100, 100) two_point_slot)
   = Inr (Some (''occupied'', 1640 / 1681, 1640, 1681))"
proof -
  have sh: "shape example_env () = (100, 100)"
    and brd: "boundingRect example_env = example_boundingRect"
    and cmd: "count_masked example_env () = example_count"
    by (simp_all add: example_env_def)
  have first: "map_sum id (map_option (\<lambda>r. (trk_status r, trk_occupancy_ratio r, white_pixel_count r, total_area r)))
     (tracker_slot example_env (tracker_with 900) () (100, 100) scenario_slot)
   = Inr (Some (''vacant'', 1, 121, 121))"
  proof -
    have ne: "coordinates scenario_slot \<noteq> []" by (simp add: scenario_slot_def)
    have lp: "tracker_pixel_coords_loop
        (or_dim (image_width scenario_slot) (imageWidth scenario_slot) (real_of_int 100))
        (or_dim (image_height scenario_slot) (imageHeight scenario_slot) (real_of_int 100))
        (coordinates scenario_slot) [] = Inr [(0, 0), (10, 0), (10, 10), (0, 10)]"
      by (simp add: scenario_slot_def or_dim_def py_int_def)
    have br: "boundingRect example_env [(0, 0), (10, 0), (10, 10), (0, 10)] = Inr (0, 0, 11, 11)"
      by (simp add: brd example_boundingRect_def)
    have cm: "count_masked example_env () [(0, 0), (10, 0), (10, 10), (0, 10)]
        (0, 0,
         (if 0 + 11 > snd (shape example_env ()) then snd (shape example_env ()) - 0 else 11),
         (if 0 + 11 > fst (shape example_env ()) then fst (shape example_env ()) - 0 else 11))
        = Inr 121"
      by (simp add: sh cmd example_count_def)
    note inst = tracker_decision_rule [where ext = example_env and self = "tracker_with 900"
        and imgPro = "()" and img_height = 100 and img_width = 100 and slot = scenario_slot]
    from inst [THEN conjunct2, THEN mp, OF conjI [OF ne conjI [OF lp conjI [OF br cm]]]]
    obtain r where r: "tracker_slot example_env (tracker_with 900) () (100, 100) scenario_slot = Inr (Some r)"
      and cnt: "white_pixel_count r = 121"
      and area: "total_area r = 121"
      by (auto simp: sh)
    from inst [where r = r, THEN conjunct1, THEN mp, OF r]
    have rule1: "threshold_val (tracker_with 900) > 1 \<longrightarrow>
            (trk_status r = ''occupied'' \<longleftrightarrow> real_of_int (white_pixel_count r) \<ge> threshold_val (tracker_with 900))"
      and vac: "trk_status r = ''vacant'' \<longleftrightarrow> trk_status r \<noteq> ''occupied''"
      and ratio: "trk_occupancy_ratio r = real_of_int (white_pixel_count r) / real_of_int (total_area r)"
      by blast+
    have st: "trk_status r = ''vacant''"
      using rule1 vac by (simp add: cnt tracker_with_def)
    have rt: "trk_occupancy_ratio r = 1"
      using ratio by (simp add: cnt area)
    show ?thesis unfolding r by (simp add: st rt cnt area)
  qed
  have second: "map_sum id (map_option (\<lambda>r. (trk_status r, trk_occupancy_ratio r, white_pixel_count r, total_area r)))
     (tracker_slot example_env (tracker_with 0.5) () (100, 100) two_point_slot)
   = Inr (Some (''occupied'', 1640 / 1681, 1640, 1681))"
  proof -
    have ne: "coordinates two_point_slot \<noteq> []" by (simp add: two_point_slot_def)
    have lp: "tracker_pixel_coords_loop
        (or_dim (image_width two_point_slot) (imageWidth two_point_slot) (real_of_int 100))
        (or_dim (image_height two_point_slot) (imageHeight two_point_slot) (real_of_int 100))
        (coordinates two_point_slot) [] = Inr [(10, 10), (50, 50)]"
      by (simp add: two_point_slot_def or_dim_def py_int_def)
    have br: "boundingRect example_env [(10, 10), (50, 50)] = Inr (10, 10, 41, 41)"
      by (simp add: brd example_boundingRect_def)
    have cm: "count_masked example_env () [(10, 10), (50, 50)]
        (10, 10,
         (if 10 + 41 > snd (shape example_env ()) then snd (shape example_env ()) - 10 else 41),
         (if 10 + 41 > fst (shape example_env ()) then fst (shape example_env ()) - 10 else 41))
        = Inr 1640"
      by (simp add: sh cmd example_count_def)
    note inst = tracker_decision_rule [where ext = example_env and self = "tracker_with 0.5"
        and imgPro = "()" and img_height = 100 and img_width = 100 and slot = two_point_slot]
    from inst [THEN conjunct2, THEN mp, OF conjI [OF ne conjI [OF lp conjI [OF br cm]]]]
    obtain r where r: "tracker_slot example_env (tracker_with 0.5) () (100, 100) two_point_slot = Inr (Some r)"
      and cnt: "white_pixel_count r = 1640"
      and area: "total_area r = 1681"
      by (auto simp: sh)
    from inst [where r = r, THEN conjunct1, THEN mp, OF r]
    have rule2: "\<not> threshold_val (tracker_with 0.5) > 1 \<longrightarrow>
            (trk_status r = ''occupied'' \<longleftrightarrow>
               real_of_int (white_pixel_count r) / real_of_int (total_area r) > threshold_val (tracker_with 0.5))"
      and ratio: "trk_occupancy_ratio r = real_of_int (white_pixel_count r) / real_of_int (total_area r)"
      by blast+
    have st: "trk_status r = ''occupied''"
      using rule2 by (simp add: cnt area tracker_with_def)
    have rt: "trk_occupancy_ratio r = 1640 / 1681"
      using ratio by (simp add: cnt area)
    show ?thesis unfolding r by (simp add: st rt cnt area)
  qed
  show ?thesis using first second by (rule conjI)
qed


section \<open>Which slots are excluded from the results\<close>












end
